theory Spec2Isabelle
  imports Complex_Main
begin

section \<open>Values, errors and Python numbers\<close>

text \<open>
  The exceptions that the modelled code can raise.  \<open>CDLSyntaxError\<close> and
  \<open>CDLContentError\<close> are the two exception classes of the module; the next five are
  Python's built-in exceptions that escape where the source does not catch them;
  \<open>LibraryError\<close> is whatever numpy or netCDF4 raises when it rejects a call.
\<close>

datatype error =
    CDLSyntaxError | CDLContentError
  | NameError | TypeError | IndexError | ZeroDivisionError | OverflowError
  | LibraryError

text \<open>
  A decoded literal: the numpy scalar (or Python string) that a token function stores in
  \<open>t.value\<close>.  Floating-point payloads are kept as the real number denoted by the text;
  rounding to 32 or 64 bits is not modelled.  \<open>ListV\<close> is a Python list of such values,
  as an attribute with several constants holds it.
\<close>

datatype val =
    ByteV int
  | ShortV int
  | IntV int
  | FloatV real
  | DoubleV real
  | StrV string
  | ListV "val list"

text \<open>
  A number as the arithmetic of \<open>write_var_data\<close> produces it: \<open>var.size\<close>, the lengths
  of dimensions and of lists are integers, \<open>/\<close> is true division and always gives a
  float, \<open>%\<close> gives a float as soon as one operand is one.  Both raise
  \<open>ZeroDivisionError\<close> on a zero divisor.
\<close>

datatype pynum = PyInt int | PyFloat real

fun num_val :: "pynum \<Rightarrow> real" where
  "num_val (PyInt i) = of_int i"
| "num_val (PyFloat r) = r"

definition py_truediv :: "pynum \<Rightarrow> pynum \<Rightarrow> error + pynum" where
  "py_truediv a b =
     (if num_val b = 0 then Inl ZeroDivisionError
      else Inr (PyFloat (num_val a / num_val b)))"

fun py_mod :: "pynum \<Rightarrow> pynum \<Rightarrow> error + pynum" where
  "py_mod (PyInt a) (PyInt b) =
     (if b = 0 then Inl ZeroDivisionError else Inr (PyInt (a mod b)))"
| "py_mod a b =
     (if num_val b = 0 then Inl ZeroDivisionError
      else Inr (PyFloat (num_val a - num_val b * of_int \<lfloor>num_val a / num_val b\<rfloor>)))"

text \<open>\<open>x != 0\<close> and the truth value of a number.\<close>

definition truthy :: "pynum \<Rightarrow> bool" where
  "truthy n = (num_val n \<noteq> 0)"

text \<open>\<open>n < x\<close> for an integer \<open>n\<close>.\<close>

definition int_less :: "int \<Rightarrow> pynum \<Rightarrow> bool" where
  "int_less n x = (of_int n < num_val x)"

section \<open>Decoding integer literals\<close>

definition is_digit :: "char \<Rightarrow> bool" where
  "is_digit c = (48 \<le> (of_char c :: nat) \<and> (of_char c :: nat) \<le> 57)"

definition is_hexdigit :: "char \<Rightarrow> bool" where
  "is_hexdigit c = (is_digit c
     \<or> (65 \<le> (of_char c :: nat) \<and> (of_char c :: nat) \<le> 70)
     \<or> (97 \<le> (of_char c :: nat) \<and> (of_char c :: nat) \<le> 102))"

definition hex_val :: "char \<Rightarrow> nat" where
  "hex_val c = (let n = (of_char c :: nat) in
     if n \<le> 57 then n - 48 else if n \<le> 70 then n - 55 else n - 87)"

definition digits_value :: "nat \<Rightarrow> string \<Rightarrow> nat" where
  "digits_value base s = foldl (\<lambda>acc c. acc * base + hex_val c) 0 s"

text \<open>
  Python 3's integer literal in the two forms the short pattern
  \<open>[+-]?([0-9]+|0[xX][0-9a-fA-F]+)[sS]\<close> lets through: \<open>0x\<close>/\<open>0X\<close> followed by
  hexadecimal digits, or decimal digits with no leading zero unless every digit is zero.
  \<open>None\<close> is a text that is neither.
\<close>

definition py_int_literal :: "string \<Rightarrow> nat option" where
  "py_int_literal s =
     (if s = [] then None
      else if (take 2 s = ''0x'' \<or> take 2 s = ''0X'') then
        (if drop 2 s \<noteq> [] \<and> list_all is_hexdigit (drop 2 s)
         then Some (digits_value 16 (drop 2 s)) else None)
      else if list_all is_digit s \<and> (hd s \<noteq> CHR ''0'' \<or> list_all (\<lambda>c. c = CHR ''0'') s)
        then Some (digits_value 10 s)
      else None)"

text \<open>\<open>eval(text)\<close> on an optionally signed integer literal.\<close>

definition py_eval_int :: "string \<Rightarrow> int option" where
  "py_eval_int s =
     (case s of
        [] \<Rightarrow> None
      | c # r \<Rightarrow>
          if c = CHR ''-'' then map_option (\<lambda>n. - int n) (py_int_literal r)
          else if c = CHR ''+'' then map_option int (py_int_literal r)
          else map_option int (py_int_literal s))"

text \<open>
  \<open>int(text)\<close> on an optionally signed run of decimal digits (the only texts the byte
  pattern passes to it); leading zeros are allowed here.
\<close>

definition py_int_of_str :: "string \<Rightarrow> int option" where
  "py_int_of_str s =
     (case s of
        [] \<Rightarrow> None
      | c # r \<Rightarrow>
          if c = CHR ''-'' then
            (if r \<noteq> [] \<and> list_all is_digit r then Some (- int (digits_value 10 r)) else None)
          else if c = CHR ''+'' then
            (if r \<noteq> [] \<and> list_all is_digit r then Some (int (digits_value 10 r)) else None)
          else if list_all is_digit s then Some (int (digits_value 10 s)) else None)"

section \<open>Token functions for integer constants\<close>

definition XDR_INT_MIN :: int where "XDR_INT_MIN = - 2147483648"
definition XDR_INT_MAX :: int where "XDR_INT_MAX = 2147483647"

definition t_SHORT_CONST :: "string \<Rightarrow> error + val" where
  "t_SHORT_CONST text =
     (case py_eval_int (butlast text) of
        None \<Rightarrow> Inl CDLContentError
      | Some int_val \<Rightarrow>
          if int_val < - 32768 \<or> int_val > 32767 then Inl CDLContentError
          else Inr (ShortV int_val))"

text \<open>
  \<open>ord(eval(text))\<close> on a quoted byte constant.  The body between the quotes is a
  single character, a backslash escape, an octal escape of one to three digits or
  \<open>\x\<close> with exactly two hexadecimal digits.  Python leaves an unknown escape as two
  characters, on which \<open>ord\<close> raises; a one-digit \<open>\x\<close> escape, a bare quote, a bare
  backslash, a line end and a NUL do not evaluate at all.  Every such failure is
  \<open>None\<close>.
\<close>

definition simple_escape :: "char \<Rightarrow> nat option" where
  "simple_escape c =
     (if c = CHR ''n'' then Some 10 else if c = CHR ''t'' then Some 9
      else if c = CHR 0x5C then Some 92 else if c = CHR 0x27 then Some 39
      else if c = CHR 0x22 then Some 34 else if c = CHR ''a'' then Some 7
      else if c = CHR ''b'' then Some 8 else if c = CHR ''f'' then Some 12
      else if c = CHR ''r'' then Some 13 else if c = CHR ''v'' then Some 11
      else None)"

definition is_octdigit :: "char \<Rightarrow> bool" where
  "is_octdigit c = (48 \<le> (of_char c :: nat) \<and> (of_char c :: nat) \<le> 55)"

definition py_ord_quoted :: "string \<Rightarrow> int option" where
  "py_ord_quoted text =
     (let body = butlast (tl text) in
      case body of
        [c] \<Rightarrow> if c = CHR 0x5C \<or> c = CHR 0x27 \<or> c = CHR 0x0A \<or> c = CHR 0x0D
                  \<or> c = CHR 0x00 then None
               else Some (int (of_char c))
      | b # r \<Rightarrow>
          if b \<noteq> CHR 0x5C then None
          else if list_all is_octdigit r \<and> length r \<le> 3 then Some (int (digits_value 8 r))
          else if length r = 1 then map_option int (simple_escape (hd r))
          else if length r = 3 \<and> hd r = CHR ''x'' \<and> list_all is_hexdigit (tl r)
            then Some (int (digits_value 16 (tl r)))
          else None
      | [] \<Rightarrow> None)"

definition t_BYTE_CONST :: "string \<Rightarrow> error + val" where
  "t_BYTE_CONST text =
     (case (if take 1 text = [CHR 0x27] then py_ord_quoted text
            else py_int_of_str (butlast text)) of
        None \<Rightarrow> Inl CDLContentError
      | Some int_val \<Rightarrow>
          if int_val < - 128 \<or> int_val > 127 then Inl CDLContentError
          else Inr (ByteV int_val))"

text \<open>
  \<open>int(eval(text))\<close> on the texts the int pattern
  \<open>[+-]?([1-9][0-9]*|0[xX]?[0-9a-fA-F]+|0)\<close> lets through.  Beside decimal and \<open>0x\<close>
  literals, a \<open>0\<close> followed by hexadecimal digits can be a binary literal (\<open>0b101\<close>) or
  a float literal (\<open>01e2\<close>), which \<open>int\<close> then truncates; the exponent has no sign, so
  the float denotes an integer.  A float literal from \<open>2^1024 - 2^970\<close> on evaluates to
  infinity, on which \<open>int\<close> raises.  Below that bound and above \<open>2^53\<close> the float is only
  close to the integer returned here; both lie far outside the int range.
\<close>

definition py_number_literal :: "string \<Rightarrow> int option" where
  "py_number_literal s =
     (case py_int_literal s of
        Some n \<Rightarrow> Some (int n)
      | None \<Rightarrow>
          if (take 2 s = ''0b'' \<or> take 2 s = ''0B'') \<and> drop 2 s \<noteq> []
             \<and> list_all (\<lambda>c. c = CHR ''0'' \<or> c = CHR ''1'') (drop 2 s)
          then Some (int (digits_value 2 (drop 2 s)))
          else
            (let m = takeWhile is_digit s; r = dropWhile is_digit s
             in if m \<noteq> [] \<and> r \<noteq> [] \<and> (hd r = CHR ''e'' \<or> hd r = CHR ''E'')
                   \<and> tl r \<noteq> [] \<and> list_all is_digit (tl r)
                then (let v = digits_value 10 m * 10 ^ digits_value 10 (tl r)
                      in if v \<ge> 2 ^ 1024 - 2 ^ 970 then None else Some (int v))
                else None))"

definition py_eval_number :: "string \<Rightarrow> int option" where
  "py_eval_number s =
     (case s of
        [] \<Rightarrow> None
      | c # r \<Rightarrow>
          if c = CHR ''-'' then map_option uminus (py_number_literal r)
          else if c = CHR ''+'' then py_number_literal r
          else py_number_literal s)"

text \<open>
  In \<open>t_INT_CONST\<close> the message of the range error is formatted from the name
  \<open>int_val\<close>, which that function never binds (its variable is \<open>long_val\<close>): building
  the message raises \<open>NameError\<close> before \<open>CDLContentError\<close> can be raised.
\<close>

definition t_INT_CONST :: "string \<Rightarrow> error + val" where
  "t_INT_CONST text =
     (case py_eval_number text of
        None \<Rightarrow> Inl CDLContentError
      | Some long_val \<Rightarrow>
          if long_val < XDR_INT_MIN \<or> long_val > XDR_INT_MAX then Inl NameError
          else Inr (IntV long_val))"

section \<open>Token functions for floating-point constants\<close>

definition strip_sign :: "string \<Rightarrow> string" where
  "strip_sign s = (if s \<noteq> [] \<and> (hd s = CHR ''+'' \<or> hd s = CHR ''-'') then tl s else s)"

text \<open>The pattern \<open>exp\<close>: \<open>[eE][+-]?[0-9]+\<close>.\<close>

definition exp_shape :: "string \<Rightarrow> bool" where
  "exp_shape s = (s \<noteq> [] \<and> (hd s = CHR ''e'' \<or> hd s = CHR ''E'')
     \<and> strip_sign (tl s) \<noteq> [] \<and> list_all is_digit (strip_sign (tl s)))"

text \<open>
  The part that \<open>float_const\<close> and \<open>double_const\<close> share, before the suffix:
  \<open>[+-]?[0-9]*\.[0-9]*exp?\<close> or \<open>[+-]?[0-9]*exp\<close>.
\<close>

definition real_body_shape :: "string \<Rightarrow> bool" where
  "real_body_shape s =
     (let r = dropWhile is_digit (strip_sign s) in
      if r \<noteq> [] \<and> hd r = CHR ''.'' then
        (let r2 = dropWhile is_digit (tl r) in r2 = [] \<or> exp_shape r2)
      else exp_shape r)"

definition float_const_shape :: "string \<Rightarrow> bool" where
  "float_const_shape text = (text \<noteq> [] \<and> (last text = CHR ''f'' \<or> last text = CHR ''F'')
     \<and> real_body_shape (butlast text))"

definition double_const_shape :: "string \<Rightarrow> bool" where
  "double_const_shape text = (real_body_shape text
     \<or> (text \<noteq> [] \<and> (last text = CHR ''d'' \<or> last text = CHR ''D'')
        \<and> real_body_shape (butlast text)))"

definition pow10 :: "int \<Rightarrow> real" where
  "pow10 e = (if 0 \<le> e then 10 ^ nat e else 1 / 10 ^ nat (- e))"

text \<open>
  Python's \<open>float(text)\<close> on a text over the alphabet of the two patterns (sign, digits,
  point, exponent): the mantissa needs at least one digit, the exponent, when present, at
  least one.  \<open>None\<close> is the \<open>ValueError\<close>.  The value is the real number the text
  denotes.
\<close>

definition py_exponent :: "string \<Rightarrow> int option" where
  "py_exponent r =
     (if r = [] then Some 0
      else if exp_shape r then
        Some ((if hd (tl r) = CHR ''-'' then - 1 else 1) * int (digits_value 10 (strip_sign (tl r))))
      else None)"

definition py_float :: "string \<Rightarrow> real option" where
  "py_float s =
     (let sgn = (if s \<noteq> [] \<and> hd s = CHR ''-'' then - 1 else 1 :: real);
          u = strip_sign s;
          d1 = takeWhile is_digit u;
          r = dropWhile is_digit u;
          d2 = (if r \<noteq> [] \<and> hd r = CHR ''.'' then takeWhile is_digit (tl r) else []);
          r2 = (if r \<noteq> [] \<and> hd r = CHR ''.'' then dropWhile is_digit (tl r) else r)
      in if d1 @ d2 = [] then None
         else case py_exponent r2 of
                None \<Rightarrow> None
              | Some e \<Rightarrow>
                  Some (sgn * real (digits_value 10 (d1 @ d2)) * pow10 (e - int (length d2))))"

definition t_FLOAT_CONST :: "string \<Rightarrow> error + val" where
  "t_FLOAT_CONST text =
     (case py_float (butlast text) of
        None \<Rightarrow> Inl CDLContentError
      | Some float_val \<Rightarrow> Inr (FloatV float_val))"

text \<open>
  \<open>t.value[-1]\<close> sits inside the \<open>try\<close>, so even on an empty text the exception that
  leaves is \<open>CDLContentError\<close>.
\<close>

definition t_DOUBLE_CONST :: "string \<Rightarrow> error + val" where
  "t_DOUBLE_CONST text =
     (if text = [] then Inl CDLContentError
      else case py_float (if last text = CHR ''d'' \<or> last text = CHR ''D''
                          then butlast text else text) of
             None \<Rightarrow> Inl CDLContentError
           | Some double_val \<Rightarrow> Inr (DoubleV double_val))"


section \<open>The dataset under construction\<close>

text \<open>
  The element type of a variable, with the two views numpy gives of it: \<open>dtype.char\<close> and
  \<open>dtype.kind\<close>.  \<open>p_type\<close> maps \<open>char\<close> to the type code \<open>c\<close>, and the variable
  created with it has a dtype of kind \<open>S\<close> whose char is that code \<open>c\<close>.
\<close>

datatype nctype = NcByte | NcChar | NcShort | NcInt | NcFloat | NcDouble

fun dtype_char :: "nctype \<Rightarrow> char" where
  "dtype_char NcByte = CHR ''b''"
| "dtype_char NcChar = CHR ''c''"
| "dtype_char NcShort = CHR ''h''"
| "dtype_char NcInt = CHR ''i''"
| "dtype_char NcFloat = CHR ''f''"
| "dtype_char NcDouble = CHR ''d''"

fun dtype_kind :: "nctype \<Rightarrow> char" where
  "dtype_kind NcChar = CHR ''S''"
| "dtype_kind NcFloat = CHR ''f''"
| "dtype_kind NcDouble = CHR ''f''"
| "dtype_kind t = CHR ''i''"

record ncvar =
  var_name :: string
  dtype :: nctype
  dimensions :: "string list"
  ncattrs :: "string \<rightharpoonup> val"

datatype level = DEBUG | INFO | WARNING | ERROR

text \<open>
  The parser's own fields and the dataset it builds.  A dimension maps to its current
  length, 0 for an unlimited dimension nothing was written to.  \<open>curr_var\<close> is a handle
  to a variable of the dataset, kept as the variable's name.  The log keeps the level
  and a tag of every logger call.
\<close>

record parser =
  ds_dimensions :: "string \<rightharpoonup> int"
  ds_variables :: "string \<rightharpoonup> ncvar"
  ds_ncattrs :: "string \<rightharpoonup> val"
  rec_dimname :: "string option"
  curr_var :: "string option"
  log :: "(level \<times> string) list"

definition logmsg :: "level \<Rightarrow> string \<Rightarrow> parser \<Rightarrow> parser" where
  "logmsg l m st = st\<lparr>log := log st @ [(l, m)]\<rparr>"

section \<open>Dimension declarations\<close>

text \<open>
  The third symbol of \<open>dimdecl\<close>: the value of an \<open>INT_CONST\<close> token, of a
  \<open>DOUBLE_CONST\<close> token, or the string of the \<open>NC_UNLIMITED_K\<close> token.  The value of a
  \<open>DOUBLE_CONST\<close> is a float: \<open>LenDouble r\<close> is the finite float of value \<open>r\<close>, as the
  token function rounded it, \<open>LenInf\<close> the infinity of either sign that a text such as
  \<open>1e400\<close> is decoded to.
\<close>

datatype dimlen_spec = LenInt int | LenDouble real | LenInf | LenStr string

text \<open>\<open>int(x)\<close> on a finite float truncates towards zero; on an infinity it raises.\<close>

definition py_trunc :: "real \<Rightarrow> int" where
  "py_trunc r = (if 0 \<le> r then \<lfloor>r\<rfloor> else \<lceil>r\<rceil>)"

definition p_dimd :: "parser \<Rightarrow> string \<Rightarrow> error + string" where
  "p_dimd st p1 =
     (if p1 \<in> dom (ds_dimensions st) then Inl CDLContentError else Inr p1)"

text \<open>The truth value of \<open>self.rec_dimname\<close>: neither \<open>None\<close> nor the empty string.\<close>

definition rec_dimname_set :: "parser \<Rightarrow> bool" where
  "rec_dimname_set st = (case rec_dimname st of None \<Rightarrow> False | Some r \<Rightarrow> r \<noteq> [])"

definition createDimension :: "string \<Rightarrow> int \<Rightarrow> parser \<Rightarrow> parser" where
  "createDimension dimname dimlen st =
     logmsg INFO ''Created dimension''
       (st\<lparr>ds_dimensions := (ds_dimensions st)(dimname \<mapsto> dimlen)\<rparr>)"

text \<open>
  \<open>creates\<close> tells whether the dataset's \<open>createDimension\<close> carries out the call; when it
  does not, the error it raises leaves \<open>p_dimdecl\<close> as it is.
\<close>

definition p_dimdecl ::
  "(string \<Rightarrow> int \<Rightarrow> bool) \<Rightarrow> parser \<Rightarrow> string \<Rightarrow> dimlen_spec \<Rightarrow> error + parser" where
  "p_dimdecl creates st p1 p3 =
     (case (case p3 of
              LenStr s \<Rightarrow>
                if s = ''unlimited'' then
                  (if rec_dimname_set st then Inl CDLContentError
                   else Inr (0, st\<lparr>rec_dimname := Some p1\<rparr>))
                else Inl CDLContentError
            | LenInt n \<Rightarrow> if n \<le> 0 then Inl CDLContentError else Inr (n, st)
            | LenDouble r \<Rightarrow>
                if py_trunc r \<le> 0 then Inl CDLContentError else Inr (py_trunc r, st)
            | LenInf \<Rightarrow> Inl OverflowError) of
        Inl e \<Rightarrow> Inl e
      | Inr (dimlen, st1) \<Rightarrow>
          if p1 \<noteq> [] then
            (if creates p1 dimlen then Inr (createDimension p1 dimlen st1)
             else Inl LibraryError)
          else Inr st1)"

text \<open>
  The production \<open>dimdecl : dimd EQUALS ...\<close> as the parser reduces it: first \<open>dimd\<close>,
  then \<open>dimdecl\<close> with the name \<open>dimd\<close> returned.
\<close>

definition dimdecl ::
  "(string \<Rightarrow> int \<Rightarrow> bool) \<Rightarrow> parser \<Rightarrow> string \<Rightarrow> dimlen_spec \<Rightarrow> error + parser" where
  "dimdecl creates st name p3 =
     (case p_dimd st name of Inl e \<Rightarrow> Inl e | Inr p1 \<Rightarrow> p_dimdecl creates st p1 p3)"

text \<open>
  The state \<open>parse_text\<close> and \<open>init_netcdf\<close> leave before the first declaration: a fresh
  dataset, no current variable, no record dimension.
\<close>

definition init_parser :: parser where
  "init_parser = \<lparr>ds_dimensions = Map.empty, ds_variables = Map.empty, ds_ncattrs = Map.empty,
     rec_dimname = None, curr_var = None, log = []\<rparr>"

text \<open>
  What links \<open>rec_dimname\<close> to the dataset: it is set exactly when the dataset has an
  unlimited dimension (one of length 0), and then it names the only one.
\<close>

definition unlimited_inv :: "parser \<Rightarrow> bool" where
  "unlimited_inv st =
     (case rec_dimname st of
        None \<Rightarrow> (\<forall>n. ds_dimensions st n \<noteq> Some 0)
      | Some r \<Rightarrow> r \<noteq> [] \<and> ds_dimensions st r = Some 0
                 \<and> (\<forall>n. ds_dimensions st n = Some 0 \<longrightarrow> n = r))"


section \<open>Fill values\<close>

definition NC_FILL_BYTE :: val where "NC_FILL_BYTE = ByteV (- 127)"
definition NC_FILL_CHAR :: val where "NC_FILL_CHAR = StrV [CHR 0x00]"
definition NC_FILL_SHORT :: val where "NC_FILL_SHORT = ShortV (- 32767)"
definition NC_FILL_INT :: val where "NC_FILL_INT = IntV (- 2147483647)"
definition NC_FILL_FLOAT :: val where
  "NC_FILL_FLOAT = FloatV (99692099683868690 * 10 ^ 20)"
definition NC_FILL_DOUBLE :: val where
  "NC_FILL_DOUBLE = DoubleV (99692099683868690 * 10 ^ 20)"

definition get_default_fill_value :: "char \<Rightarrow> error + val" where
  "get_default_fill_value datatype =
     (if datatype = CHR ''b'' then Inr NC_FILL_BYTE
      else if datatype = CHR ''S'' \<or> datatype = CHR ''U'' then Inr NC_FILL_CHAR
      else if datatype = CHR ''h'' \<or> datatype = CHR ''s'' then Inr NC_FILL_SHORT
      else if datatype = CHR ''i'' then Inr NC_FILL_INT
      else if datatype = CHR ''f'' then Inr NC_FILL_FLOAT
      else if datatype = CHR ''d'' then Inr NC_FILL_DOUBLE
      else Inl CDLContentError)"

text \<open>
  \<open>pad_array\<close> extends the list in place; the model returns the extended list.  The
  number of copies is \<open>varlen - arrlen\<close>: a list times a negative integer is empty, a list
  times a float is a \<open>TypeError\<close>.
\<close>

definition pad_array :: "ncvar \<Rightarrow> pynum \<Rightarrow> val list \<Rightarrow> error + val list" where
  "pad_array var varlen arr =
     (case (case ncattrs var ''_FillValue'' of
              Some v \<Rightarrow> Inr v
            | None \<Rightarrow>
                (case ncattrs var ''missing_value'' of
                   Some v \<Rightarrow> Inr v
                 | None \<Rightarrow> get_default_fill_value (dtype_char (dtype var)))) of
        Inl e \<Rightarrow> Inl e
      | Inr fv \<Rightarrow>
          (case varlen of
             PyInt n \<Rightarrow> Inr (arr @ replicate (nat (n - int (length arr))) fv)
           | PyFloat x \<Rightarrow> Inl TypeError))"

section \<open>Constants of a data list\<close>

definition FILL_STRING :: string where "FILL_STRING = ''_''"

definition curr_var_handle :: "parser \<Rightarrow> ncvar option" where
  "curr_var_handle st =
     (case curr_var st of None \<Rightarrow> None | Some n \<Rightarrow> ds_variables st n)"

text \<open>
  \<open>p_const\<close> returns the value of the constant, \<open>p[0]\<close>, and may log.  \<open>p[1]\<close> is the
  token's value; only a string can be equal to \<open>FILL_STRING\<close>.
\<close>

definition p_const :: "parser \<Rightarrow> val \<Rightarrow> error + (val \<times> parser)" where
  "p_const st p1 =
     (if p1 = StrV FILL_STRING then
        (case curr_var_handle st of
           None \<Rightarrow> Inr (p1, logmsg WARNING ''Unable to replace fill value'' st)
         | Some var \<Rightarrow>
             if dtype_kind (dtype var) \<noteq> CHR ''S'' then
               (case ncattrs var ''_FillValue'' of
                  Some v \<Rightarrow> Inr (v, st)
                | None \<Rightarrow>
                    (case get_default_fill_value (dtype_char (dtype var)) of
                       Inl e \<Rightarrow> Inl e
                     | Inr v \<Rightarrow> Inr (v, st)))
             else Inr (p1, logmsg WARNING ''Unable to replace fill value'' st))
      else Inr (p1, st))"

section \<open>Attributes\<close>





section \<open>Variable references\<close>

definition p_avar :: "parser \<Rightarrow> string \<Rightarrow> error + (string \<times> parser)" where
  "p_avar st varname =
     (if varname \<notin> dom (ds_variables st) then Inl CDLContentError
      else Inr (varname, logmsg DEBUG ''Current variable set'' (st\<lparr>curr_var := Some varname\<rparr>)))"

section \<open>Writing the data of a variable\<close>

text \<open>
  The length of a dimension of the dataset.  A variable only has dimensions the dataset
  has, so the default is never read.
\<close>

definition dim_len :: "parser \<Rightarrow> string \<Rightarrow> int" where
  "dim_len st d = (case ds_dimensions st d of Some n \<Rightarrow> n | None \<Rightarrow> 0)"

text \<open>\<open>var.shape\<close>, \<open>var.size\<close> and \<open>var.ndim\<close> as netCDF4 derives them.\<close>

definition var_shape :: "parser \<Rightarrow> ncvar \<Rightarrow> int list" where
  "var_shape st var = map (dim_len st) (dimensions var)"

definition var_size :: "parser \<Rightarrow> ncvar \<Rightarrow> int" where
  "var_size st var = prod_list (var_shape st var)"

definition var_ndim :: "ncvar \<Rightarrow> nat" where
  "var_ndim var = length (dimensions var)"

text \<open>
  What the module hands to the libraries: a value for a scalar variable, or the data list
  (for a character variable, its fixed-width elements) together with the shape set on
  the array before it is assigned to the variable.
\<close>

datatype sink_call =
    AssignValue val
  | SetNumeric "val list" "pynum list"
  | SetChars "string list" "pynum list"

text \<open>
  Modelled from the spec: numpy's conversion of a string to the fixed-width dtype
  \<open>S<maxlen>\<close> and netCDF4's \<open>stringtochar\<close> are library code, not under src/.  The spec
  has each string packed into a text element of the given width, shorter strings padded
  with NUL; a longer string keeps its first \<open>maxlen\<close> characters.  \<open>np_text\<close> is the
  text numpy makes of a value that is not a string.
\<close>

definition np_fixed_width :: "(val \<Rightarrow> string) \<Rightarrow> nat \<Rightarrow> val \<Rightarrow> string" where
  "np_fixed_width np_text maxlen v =
     (let s = (case v of StrV t \<Rightarrow> t | _ \<Rightarrow> np_text v)
      in take maxlen s @ replicate (maxlen - length s) (CHR 0x00))"

definition str_list_to_char_arr :: "(val \<Rightarrow> string) \<Rightarrow> val list \<Rightarrow> nat \<Rightarrow> string list" where
  "str_list_to_char_arr np_text slist maxlen = map (np_fixed_width np_text maxlen) slist"

text \<open>
  The shape both \<open>put\<close> functions compute: the variable's shape, with the first entry
  replaced by \<open>len(arr) / reclen\<close> when \<open>reclen\<close> is true.
\<close>

definition put_shape :: "int list \<Rightarrow> nat \<Rightarrow> pynum \<Rightarrow> error + pynum list" where
  "put_shape shape n reclen =
     (if truthy reclen then
        (case shape of
           [] \<Rightarrow> Inl IndexError
         | _ # rest \<Rightarrow>
             (case py_truediv (PyInt (int n)) reclen of
                Inl e \<Rightarrow> Inl e
              | Inr q \<Rightarrow> Inr (q # map PyInt rest)))
      else Inr (map PyInt shape))"

text \<open>\<open>accepts\<close> tells whether numpy and netCDF4 carry out a call without raising.\<close>

definition put_numeric_data ::
  "(sink_call \<Rightarrow> bool) \<Rightarrow> int list \<Rightarrow> val list \<Rightarrow> pynum \<Rightarrow> error + sink_call" where
  "put_numeric_data accepts shape arr reclen =
     (case put_shape shape (length arr) reclen of
        Inl e \<Rightarrow> Inl e
      | Inr shp \<Rightarrow>
          if accepts (SetNumeric arr shp) then Inr (SetNumeric arr shp) else Inl LibraryError)"

definition put_char_data ::
  "(sink_call \<Rightarrow> bool) \<Rightarrow> (val \<Rightarrow> string) \<Rightarrow> int list \<Rightarrow> val list \<Rightarrow> pynum
     \<Rightarrow> error + sink_call" where
  "put_char_data accepts np_text shape arr reclen =
     (let maxlen = (if length shape > 0 then last shape else 1);
          nparr = str_list_to_char_arr np_text arr (nat maxlen)
      in case put_shape shape (length arr) reclen of
           Inl e \<Rightarrow> Inl e
         | Inr shp \<Rightarrow>
             if accepts (SetChars nparr shp) then Inr (SetChars nparr shp) else Inl LibraryError)"

text \<open>
  What numpy needs of a shape: every entry an integer.  Setting a shape with a float
  entry, \<open>3.0\<close> as much as \<open>2.5\<close>, is refused with a \<open>TypeError\<close>.
\<close>

fun is_py_int :: "pynum \<Rightarrow> bool" where
  "is_py_int (PyInt i) = True"
| "is_py_int (PyFloat r) = False"

fun integer_shape :: "sink_call \<Rightarrow> bool" where
  "integer_shape (AssignValue v) = True"
| "integer_shape (SetNumeric vals shp) = list_all is_py_int shp"
| "integer_shape (SetChars elems shp) = list_all is_py_int shp"

text \<open>
  The record branch of \<open>write_var_data\<close>: from the variable's expected length and the
  number of supplied values to \<open>(varlen, reclen)\<close>.  \<open>reduce\<close> without an initial value
  raises \<open>TypeError\<close> on an empty list.
\<close>

definition record_lengths ::
  "parser \<Rightarrow> ncvar \<Rightarrow> pynum \<Rightarrow> nat \<Rightarrow> error + (pynum \<times> pynum)" where
  "record_lengths st var varlen arrlen =
     (let rec_dimlen = dim_len st (case rec_dimname st of Some r \<Rightarrow> r | None \<Rightarrow> [])
      in case (if rec_dimlen > 0 then
                 (case py_truediv varlen (PyInt rec_dimlen) of
                    Inl e \<Rightarrow> Inl e
                  | Inr reclen \<Rightarrow> Inr (varlen, reclen))
               else if var_ndim var > 1 then
                 (case filter (\<lambda>x. x > 0) (var_shape st var) of
                    [] \<Rightarrow> Inl TypeError
                  | x # xs \<Rightarrow> Inr (PyInt (int arrlen), PyInt (foldl (*) x xs)))
               else Inr (PyInt (int arrlen), PyInt 1)) of
           Inl e \<Rightarrow> Inl e
         | Inr (varlen', reclen) \<Rightarrow>
             (case py_mod varlen' reclen of
                Inl e \<Rightarrow> Inl e
              | Inr m \<Rightarrow>
                  if truthy m then Inl CDLContentError else Inr (varlen', reclen)))"

text \<open>
  The result of a write that did not raise: the call made to the libraries and, for a
  variable with dimensions, the two lengths the method worked with.
\<close>

datatype write_result = ScalarWrite sink_call | ArrayWrite pynum pynum sink_call

text \<open>
  The expected length before the record branch: \<open>var.size\<close>, for a char variable
  divided by the length of the last dimension.
\<close>

definition expected_length :: "parser \<Rightarrow> ncvar \<Rightarrow> error + pynum" where
  "expected_length st var =
     (if dtype_kind (dtype var) = CHR ''S'' \<and> var_ndim var > 0
      then py_truediv (PyInt (var_size st var)) (PyInt (last (var_shape st var)))
      else Inr (PyInt (var_size st var)))"

definition write_var_data ::
  "(sink_call \<Rightarrow> bool) \<Rightarrow> (val \<Rightarrow> string) \<Rightarrow> parser \<Rightarrow> ncvar \<Rightarrow> val list
     \<Rightarrow> error + write_result" where
  "write_var_data accepts np_text st var arr =
     (let is_scalar = (var_ndim var = 0);
          is_charvar = (dtype_kind (dtype var) = CHR ''S'');
          is_recvar = (case rec_dimname st of None \<Rightarrow> False
                       | Some r \<Rightarrow> r \<in> set (dimensions var))
      in if is_scalar then
           (case arr of
              [] \<Rightarrow> Inl CDLContentError
            | x # _ \<Rightarrow>
                if accepts (AssignValue x) then Inr (ScalarWrite (AssignValue x))
                else Inl CDLContentError)
         else
           (let arrlen = length arr
            in case expected_length st var of
                 Inl e \<Rightarrow> Inl e
               | Inr varlen0 \<Rightarrow>
                   (case (if is_recvar then record_lengths st var varlen0 arrlen
                          else Inr (varlen0, PyInt 0)) of
                      Inl e \<Rightarrow> Inl e
                    | Inr (varlen, reclen) \<Rightarrow>
                        (case (if int_less (int arrlen) varlen then pad_array var varlen arr
                               else Inr arr) of
                           Inl e \<Rightarrow> Inl e
                         | Inr arr' \<Rightarrow>
                             (case (if is_charvar
                                    then put_char_data accepts np_text (var_shape st var)
                                           arr' reclen
                                    else put_numeric_data accepts (var_shape st var)
                                           arr' reclen) of
                                Inl e \<Rightarrow> Inl CDLContentError
                              | Inr c \<Rightarrow> Inr (ArrayWrite varlen reclen c))))))"

section \<open>Error hooks of the lexer and the parser\<close>





section \<open>Verified properties\<close>

lemmas int_token_defs =
  t_SHORT_CONST_def t_BYTE_CONST_def t_INT_CONST_def py_eval_int_def py_int_of_str_def
  py_eval_number_def py_number_literal_def py_int_literal_def digits_value_def hex_val_def is_digit_def is_hexdigit_def
  XDR_INT_MIN_def XDR_INT_MAX_def

text \<open>
  Claim C4.  The range checks of the short and byte constants are exact and inclusive:
  \<open>32767s\<close> and \<open>127b\<close> are accepted, \<open>32768s\<close> and \<open>128b\<close> are rejected with
  \<open>CDLContentError\<close>; the int constant \<open>2147483647\<close> is accepted.  The int constant
  \<open>2147483648\<close> is rejected too, but not with \<open>CDLContentError\<close>: formatting the message
  reads the unbound name \<open>int_val\<close>, so the exception that leaves \<open>t_INT_CONST\<close> is
  \<open>NameError\<close>.
\<close>

theorem range_check_boundaries:
  "t_SHORT_CONST ''32767s'' = Inr (ShortV 32767)
   \<and> t_SHORT_CONST ''32768s'' = Inl CDLContentError
   \<and> t_BYTE_CONST ''127b'' = Inr (ByteV 127)
   \<and> t_BYTE_CONST ''128b'' = Inl CDLContentError
   \<and> t_INT_CONST ''2147483647'' = Inr (IntV 2147483647)
   \<and> t_INT_CONST ''2147483648'' = Inl NameError
   \<and> t_INT_CONST ''2147483648'' \<noteq> Inl CDLContentError"
  by (simp add: int_token_defs)

lemmas real_token_defs =
  t_FLOAT_CONST_def t_DOUBLE_CONST_def py_float_def py_exponent_def pow10_def
  double_const_shape_def float_const_shape_def real_body_shape_def exp_shape_def
  strip_sign_def is_digit_def digits_value_def hex_val_def

text \<open>
  Claim C5, as the spec states it, fails: the text \<open>.\<close> has the lexical shape of a double
  constant, Python's \<open>float\<close> cannot decode it, and the exception that \<open>t_DOUBLE_CONST\<close>
  raises is \<open>CDLContentError\<close>, not \<open>CDLSyntaxError\<close>.
\<close>

theorem unparsable_literal_not_syntax_error:
  "double_const_shape ''.'' \<and> py_float ''.'' = None
   \<and> t_DOUBLE_CONST ''.'' = Inl CDLContentError
   \<and> t_DOUBLE_CONST ''.'' \<noteq> Inl CDLSyntaxError"
  by (simp add: real_token_defs)

lemma real_tokens_undecodable:
  "(float_const_shape text \<and> py_float (butlast text) = None
      \<longrightarrow> t_FLOAT_CONST text = Inl CDLContentError)
   \<and> (double_const_shape text
        \<and> py_float (if last text = CHR ''d'' \<or> last text = CHR ''D''
                     then butlast text else text) = None
      \<longrightarrow> t_DOUBLE_CONST text = Inl CDLContentError)"
  by (simp add: t_FLOAT_CONST_def t_DOUBLE_CONST_def)

lemma real_tokens_no_syntax_error:
  "t_FLOAT_CONST text \<noteq> Inl CDLSyntaxError \<and> t_DOUBLE_CONST text \<noteq> Inl CDLSyntaxError"
  by (simp add: t_FLOAT_CONST_def t_DOUBLE_CONST_def split: option.splits)

lemma int_tokens_no_syntax_error:
  "t_SHORT_CONST text \<noteq> Inl CDLSyntaxError
   \<and> t_BYTE_CONST text \<noteq> Inl CDLSyntaxError
   \<and> t_INT_CONST text \<noteq> Inl CDLSyntaxError"
  by (simp add: t_SHORT_CONST_def t_BYTE_CONST_def t_INT_CONST_def split: option.splits)

text \<open>
  Claim C5, amended.  A text of the float or double shape whose payload \<open>float\<close> cannot
  decode makes the token function raise \<open>CDLContentError\<close>; no numeric token function ever
  raises \<open>CDLSyntaxError\<close>, whatever the text.
\<close>

theorem unparsable_literal_content_error:
  "(float_const_shape text \<and> py_float (butlast text) = None
      \<longrightarrow> t_FLOAT_CONST text = Inl CDLContentError)
   \<and> (double_const_shape text
        \<and> py_float (if last text = CHR ''d'' \<or> last text = CHR ''D''
                     then butlast text else text) = None
      \<longrightarrow> t_DOUBLE_CONST text = Inl CDLContentError)
   \<and> t_FLOAT_CONST text \<noteq> Inl CDLSyntaxError
   \<and> t_DOUBLE_CONST text \<noteq> Inl CDLSyntaxError
   \<and> t_SHORT_CONST text \<noteq> Inl CDLSyntaxError
   \<and> t_BYTE_CONST text \<noteq> Inl CDLSyntaxError
   \<and> t_INT_CONST text \<noteq> Inl CDLSyntaxError"
  using real_tokens_undecodable real_tokens_no_syntax_error int_tokens_no_syntax_error
  by blast

theorem unparsable_literal_content_error_witness:
  "float_const_shape ''.f'' \<and> py_float (butlast ''.f'') = None
   \<and> t_FLOAT_CONST ''.f'' = Inl CDLContentError
   \<and> double_const_shape ''e'' = False
   \<and> double_const_shape ''-.e5D''
   \<and> py_float (butlast ''-.e5D'') = None
   \<and> t_DOUBLE_CONST ''-.e5D'' = Inl CDLContentError"
proof -
  have f: "float_const_shape ''.f'' \<and> py_float (butlast ''.f'') = None"
    by (simp add: real_token_defs)
  have d: "double_const_shape ''-.e5D''
      \<and> py_float (if last ''-.e5D'' = CHR ''d'' \<or> last ''-.e5D'' = CHR ''D''
                   then butlast ''-.e5D'' else ''-.e5D'') = None"
    by (simp add: real_token_defs)
  have n: "double_const_shape ''e'' = False"
    by (simp add: real_token_defs)
  from f unparsable_literal_content_error [of "''.f''"]
  have 1: "t_FLOAT_CONST ''.f'' = Inl CDLContentError" by blast
  from d unparsable_literal_content_error [of "''-.e5D''"]
  have 2: "t_DOUBLE_CONST ''-.e5D'' = Inl CDLContentError" by blast
  from d have 3: "py_float (butlast ''-.e5D'') = None" by simp
  from f d n 1 2 3 show ?thesis by blast
qed


lemma py_trunc_nonpos_iff: "py_trunc r \<le> 0 \<longleftrightarrow> r < 1"
proof (cases "0 \<le> r")
  case True
  have "\<lfloor>r\<rfloor> \<le> 0 \<longleftrightarrow> \<lfloor>r\<rfloor> < 1" by linarith
  also have "\<dots> \<longleftrightarrow> r < 1" by (simp add: floor_less_iff)
  finally show ?thesis using True by (simp add: py_trunc_def)
next
  case False
  then have "\<lceil>r\<rceil> \<le> 0" by (simp add: ceiling_le_iff)
  with False show ?thesis by (simp add: py_trunc_def)
qed

lemma py_trunc_floor: "1 \<le> r \<Longrightarrow> py_trunc r = \<lfloor>r\<rfloor>"
  by (simp add: py_trunc_def)

lemma unlimited_inv_init: "unlimited_inv init_parser"
  by (simp add: unlimited_inv_def init_parser_def)

lemma inv_fixed:
  assumes "unlimited_inv st" and "name \<notin> dom (ds_dimensions st)" and "0 < n"
  shows "unlimited_inv (createDimension name n st)"
proof (cases "rec_dimname st")
  case None
  with assms show ?thesis
    by (simp add: unlimited_inv_def createDimension_def logmsg_def)
next
  case (Some r)
  with assms have "r \<noteq> name" by (auto simp: unlimited_inv_def)
  with Some assms show ?thesis
    by (simp add: unlimited_inv_def createDimension_def logmsg_def)
qed

lemma inv_unlimited:
  assumes "unlimited_inv st" and "name \<notin> dom (ds_dimensions st)" and "name \<noteq> []"
    and "\<not> rec_dimname_set st"
  shows "unlimited_inv (createDimension name 0 (st\<lparr>rec_dimname := Some name\<rparr>))"
proof -
  from assms have "rec_dimname st = None"
    by (simp add: rec_dimname_set_def unlimited_inv_def split: option.splits)
  with assms show ?thesis
    by (simp add: unlimited_inv_def createDimension_def logmsg_def)
qed

text \<open>
  A declaration with a name, on a dataset without the name, in the three shapes the
  grammar can deliver with a finite length.
\<close>

lemma p_dimdecl_int:
  "name \<noteq> [] \<Longrightarrow> p_dimdecl creates st name (LenInt n) =
     (if n \<le> 0 then Inl CDLContentError
      else if creates name n then Inr (createDimension name n st) else Inl LibraryError)"
  by (simp add: p_dimdecl_def)

lemma p_dimdecl_double:
  "name \<noteq> [] \<Longrightarrow> p_dimdecl creates st name (LenDouble r) =
     (if r < 1 then Inl CDLContentError
      else if creates name \<lfloor>r\<rfloor> then Inr (createDimension name \<lfloor>r\<rfloor> st)
      else Inl LibraryError)"
  using py_trunc_nonpos_iff [of r] py_trunc_floor [of r]
  by (cases "r < 1") (simp_all add: p_dimdecl_def)

lemma p_dimdecl_unlimited:
  "name \<noteq> [] \<Longrightarrow> p_dimdecl creates st name (LenStr ''unlimited'') =
     (if rec_dimname_set st then Inl CDLContentError
      else if creates name 0
        then Inr (createDimension name 0 (st\<lparr>rec_dimname := Some name\<rparr>))
      else Inl LibraryError)"
  by (simp add: p_dimdecl_def)

lemma p_dimdecl_inf: "p_dimdecl creates st name LenInf = Inl OverflowError"
  by (simp add: p_dimdecl_def)

lemma unlimited_inv_dimdecl:
  assumes "unlimited_inv st" and "name \<noteq> []" and "dimdecl creates st name p3 = Inr st'"
  shows "unlimited_inv st'"
proof -
  from assms(3) have nd: "name \<notin> dom (ds_dimensions st)"
    and p: "p_dimdecl creates st name p3 = Inr st'"
    by (simp_all add: dimdecl_def p_dimd_def split: if_splits)
  show ?thesis
  proof (cases p3)
    case (LenInt n)
    with p p_dimdecl_int [OF assms(2), of creates st n]
    have "0 < n" "st' = createDimension name n st"
      by (simp_all split: if_splits)
    with inv_fixed [OF assms(1) nd] show ?thesis by simp
  next
    case (LenDouble r)
    with p p_dimdecl_double [OF assms(2), of creates st r]
    have "1 \<le> r" "st' = createDimension name \<lfloor>r\<rfloor> st"
      by (simp_all split: if_splits)
    moreover from \<open>1 \<le> r\<close> have "0 < \<lfloor>r\<rfloor>" by linarith
    ultimately show ?thesis using inv_fixed [OF assms(1) nd] by simp
  next
    case LenInf
    with p p_dimdecl_inf [of creates st name] show ?thesis by simp
  next
    case (LenStr s)
    with p have s: "s = ''unlimited''"
      by (simp add: p_dimdecl_def split: if_splits)
    with LenStr p p_dimdecl_unlimited [OF assms(2), of creates st]
    have "\<not> rec_dimname_set st"
      "st' = createDimension name 0 (st\<lparr>rec_dimname := Some name\<rparr>)"
      by (simp_all split: if_splits)
    with inv_unlimited [OF assms(1) nd assms(2)] show ?thesis by simp
  qed
qed

lemma unlimited_inv_rec_set:
  "unlimited_inv st \<Longrightarrow> rec_dimname_set st \<longleftrightarrow> (\<exists>n. ds_dimensions st n = Some 0)"
  by (auto simp: unlimited_inv_def rec_dimname_set_def split: option.splits)

text \<open>
  Claim C7, as the spec states it, fails: a new dimension with the fixed length 0.5, a
  positive length, is refused with \<open>CDLContentError\<close> although the name is new and
  nothing is unlimited.
\<close>

theorem positive_double_length_refused:
  "(0 :: real) < 1 / 2
   \<and> ''x'' \<notin> dom (ds_dimensions init_parser)
   \<and> \<not> rec_dimname_set init_parser
   \<and> dimdecl (\<lambda>n l. True) init_parser ''x'' (LenDouble (1 / 2)) = Inl CDLContentError"
  by (simp add: dimdecl_def p_dimd_def p_dimdecl_def py_trunc_def init_parser_def
      rec_dimname_set_def)

text \<open>
  Claim C7, amended.  A dimension declaration with a name and a length specifier the
  grammar can deliver fails with \<open>CDLContentError\<close> exactly when the name is already a
  dimension of the dataset, or the fixed length is an integer that is not positive or
  a float below 1 (the length is what \<open>int\<close> leaves of it, its integer part), or the
  specifier is \<open>unlimited\<close> and a record dimension is already set.  Past these checks
  an infinite float raises \<open>OverflowError\<close>; otherwise the dataset is asked to create
  the dimension with the integer part of the length, 0 for the unlimited one, which
  becomes the record dimension, and the dimension is registered unless the dataset
  refuses it, whose error then leaves.
\<close>

theorem dimdecl_registers_or_content_error:
  assumes "name \<noteq> []" and "\<forall>s. p3 = LenStr s \<longrightarrow> s = ''unlimited''"
  shows "dimdecl creates st name p3 =
    (if name \<in> dom (ds_dimensions st) then Inl CDLContentError
     else case p3 of
       LenInt n \<Rightarrow>
         if n \<le> 0 then Inl CDLContentError
         else if creates name n
           then Inr (logmsg INFO ''Created dimension''
                  (st\<lparr>ds_dimensions := (ds_dimensions st)(name \<mapsto> n)\<rparr>))
         else Inl LibraryError
     | LenDouble r \<Rightarrow>
         if r < 1 then Inl CDLContentError
         else if creates name \<lfloor>r\<rfloor>
           then Inr (logmsg INFO ''Created dimension''
                  (st\<lparr>ds_dimensions := (ds_dimensions st)(name \<mapsto> \<lfloor>r\<rfloor>)\<rparr>))
         else Inl LibraryError
     | LenInf \<Rightarrow> Inl OverflowError
     | LenStr s \<Rightarrow>
         if rec_dimname_set st then Inl CDLContentError
         else if creates name 0
           then Inr (logmsg INFO ''Created dimension''
                  (st\<lparr>rec_dimname := Some name,
                      ds_dimensions := (ds_dimensions st)(name \<mapsto> 0)\<rparr>))
         else Inl LibraryError)"
proof (cases "name \<in> dom (ds_dimensions st)")
  case True
  then show ?thesis by (simp add: dimdecl_def p_dimd_def)
next
  case False
  then have d: "dimdecl creates st name p3 = p_dimdecl creates st name p3"
    by (simp add: dimdecl_def p_dimd_def)
  show ?thesis
  proof (cases p3)
    case (LenInt n)
    with False d p_dimdecl_int [OF assms(1), of creates st n] show ?thesis
      by (simp add: createDimension_def)
  next
    case (LenDouble r)
    with False d p_dimdecl_double [OF assms(1), of creates st r] show ?thesis
      by (simp add: createDimension_def)
  next
    case LenInf
    with False d p_dimdecl_inf [of creates st name] show ?thesis by simp
  next
    case (LenStr s)
    with assms(2) have "s = ''unlimited''" by simp
    with LenStr False d p_dimdecl_unlimited [OF assms(1), of creates st] show ?thesis
      by (simp add: createDimension_def)
  qed
qed

theorem dimdecl_registers_or_content_error_witness:
  "dimdecl (\<lambda>n l. l \<le> 2147483644) init_parser ''x'' (LenInt 3)
     = Inr (logmsg INFO ''Created dimension'' (init_parser\<lparr>ds_dimensions := [''x'' \<mapsto> 3]\<rparr>))
   \<and> dimdecl (\<lambda>n l. l \<le> 2147483644) init_parser ''x'' (LenDouble 5)
     = Inr (logmsg INFO ''Created dimension'' (init_parser\<lparr>ds_dimensions := [''x'' \<mapsto> 5]\<rparr>))
   \<and> dimdecl (\<lambda>n l. l \<le> 2147483644) init_parser ''x'' (LenDouble (27 / 10))
     = Inr (logmsg INFO ''Created dimension'' (init_parser\<lparr>ds_dimensions := [''x'' \<mapsto> 2]\<rparr>))
   \<and> dimdecl (\<lambda>n l. l \<le> 2147483644) init_parser ''x'' (LenDouble (- 5 / 2))
     = Inl CDLContentError
   \<and> dimdecl (\<lambda>n l. l \<le> 2147483644) init_parser ''x'' (LenInt 2147483645)
     = Inl LibraryError
   \<and> dimdecl (\<lambda>n l. l \<le> 2147483644) init_parser ''x'' LenInf = Inl OverflowError
   \<and> dimdecl (\<lambda>n l. l \<le> 2147483644) (init_parser\<lparr>ds_dimensions := [''x'' \<mapsto> 3]\<rparr>)
        ''x'' (LenInt 5) = Inl CDLContentError
   \<and> dimdecl (\<lambda>n l. l \<le> 2147483644)
        (init_parser\<lparr>ds_dimensions := [''t'' \<mapsto> 0], rec_dimname := Some ''t''\<rparr>)
        ''u'' (LenStr ''unlimited'') = Inl CDLContentError
   \<and> dimdecl (\<lambda>n l. l \<le> 2147483644) init_parser ''t'' (LenStr ''unlimited'')
     = Inr (logmsg INFO ''Created dimension''
         (init_parser\<lparr>rec_dimname := Some ''t'', ds_dimensions := [''t'' \<mapsto> 0]\<rparr>))
   \<and> dimdecl (\<lambda>n l. l \<le> 2147483644) init_parser ''y'' (LenInt 0) = Inl CDLContentError"
proof -
  let ?c = "\<lambda>(n :: string) (l :: int). l \<le> 2147483644"
  have n: "''x'' \<noteq> []" "''u'' \<noteq> []" "''y'' \<noteq> []" "''t'' \<noteq> []" by simp_all
  have g: "\<forall>s. LenInt i = LenStr s \<longrightarrow> s = ''unlimited''"
    "\<forall>s. LenDouble r = LenStr s \<longrightarrow> s = ''unlimited''"
    "\<forall>s. LenInf = LenStr s \<longrightarrow> s = ''unlimited''"
    "\<forall>s. LenStr ''unlimited'' = LenStr s \<longrightarrow> s = ''unlimited''" for i r
    by simp_all
  have f: "\<lfloor>5 :: real\<rfloor> = 5" "\<lfloor>27 / 10 :: real\<rfloor> = 2" by linarith+
  have 1: "dimdecl ?c init_parser ''x'' (LenInt 3)
     = Inr (logmsg INFO ''Created dimension'' (init_parser\<lparr>ds_dimensions := [''x'' \<mapsto> 3]\<rparr>))"
    using dimdecl_registers_or_content_error [OF n(1) g(1), of ?c init_parser 3]
    by (simp add: init_parser_def)
  have 2: "dimdecl ?c init_parser ''x'' (LenDouble 5)
     = Inr (logmsg INFO ''Created dimension'' (init_parser\<lparr>ds_dimensions := [''x'' \<mapsto> 5]\<rparr>))"
    using dimdecl_registers_or_content_error [OF n(1) g(2), of ?c init_parser 5]
    by (simp add: init_parser_def)
  have 3: "dimdecl ?c init_parser ''x'' (LenDouble (27 / 10))
     = Inr (logmsg INFO ''Created dimension'' (init_parser\<lparr>ds_dimensions := [''x'' \<mapsto> 2]\<rparr>))"
    using dimdecl_registers_or_content_error [OF n(1) g(2), of ?c init_parser "27 / 10"]
    by (simp add: init_parser_def f)
  have 4: "dimdecl ?c init_parser ''x'' (LenDouble (- 5 / 2)) = Inl CDLContentError"
    using dimdecl_registers_or_content_error [OF n(1) g(2), of ?c init_parser "- 5 / 2"]
    by (simp add: init_parser_def)
  have 5: "dimdecl ?c init_parser ''x'' (LenInt 2147483645) = Inl LibraryError"
    using dimdecl_registers_or_content_error [OF n(1) g(1), of ?c init_parser 2147483645]
    by (simp add: init_parser_def)
  have 6: "dimdecl ?c init_parser ''x'' LenInf = Inl OverflowError"
    using dimdecl_registers_or_content_error [OF n(1) g(3), of ?c init_parser]
    by (simp add: init_parser_def)
  have 7: "dimdecl ?c (init_parser\<lparr>ds_dimensions := [''x'' \<mapsto> 3]\<rparr>) ''x'' (LenInt 5)
     = Inl CDLContentError"
    using dimdecl_registers_or_content_error [OF n(1) g(1), of ?c
        "init_parser\<lparr>ds_dimensions := [''x'' \<mapsto> 3]\<rparr>" 5]
    by simp
  have 8: "dimdecl ?c
        (init_parser\<lparr>ds_dimensions := [''t'' \<mapsto> 0], rec_dimname := Some ''t''\<rparr>)
        ''u'' (LenStr ''unlimited'') = Inl CDLContentError"
    using dimdecl_registers_or_content_error [OF n(2) g(4), of ?c
        "init_parser\<lparr>ds_dimensions := [''t'' \<mapsto> 0], rec_dimname := Some ''t''\<rparr>"]
    by (simp add: rec_dimname_set_def)
  have 9: "dimdecl ?c init_parser ''t'' (LenStr ''unlimited'')
     = Inr (logmsg INFO ''Created dimension''
         (init_parser\<lparr>rec_dimname := Some ''t'', ds_dimensions := [''t'' \<mapsto> 0]\<rparr>))"
    using dimdecl_registers_or_content_error [OF n(4) g(4), of ?c init_parser]
    by (simp add: init_parser_def rec_dimname_set_def)
  have 10: "dimdecl ?c init_parser ''y'' (LenInt 0) = Inl CDLContentError"
    using dimdecl_registers_or_content_error [OF n(3) g(1), of ?c init_parser 0]
    by (simp add: init_parser_def)
  from 1 2 3 4 5 6 7 8 9 10 show ?thesis by blast
qed















text \<open>
  Claim C6.  For a variable without dimensions and a non-empty data list, the only value
  handed on is the first one; whatever follows it has no influence on the result, which
  is an error only when the library rejects that first value.
\<close>

theorem scalar_commits_first_literal:
  assumes "dimensions var = []"
  shows "write_var_data accepts np_text st var (x # xs) =
     (if accepts (AssignValue x) then Inr (ScalarWrite (AssignValue x))
      else Inl CDLContentError)"
  using assms by (simp add: write_var_data_def var_ndim_def)

theorem scalar_commits_first_literal_witness:
  "dimensions \<lparr>var_name = ''s'', dtype = NcInt, dimensions = [], ncattrs = Map.empty\<rparr> = []
   \<and> write_var_data (\<lambda>c. True) (\<lambda>v. []) init_parser
        \<lparr>var_name = ''s'', dtype = NcInt, dimensions = [], ncattrs = Map.empty\<rparr>
        [IntV 7, IntV 8, IntV 9] = Inr (ScalarWrite (AssignValue (IntV 7)))"
proof -
  have d: "dimensions \<lparr>var_name = ''s'', dtype = NcInt, dimensions = [], ncattrs = Map.empty\<rparr> = []"
    by simp
  show ?thesis
    using d scalar_commits_first_literal [OF d, of "\<lambda>c. True" "\<lambda>v. []" init_parser "IntV 7"
        "[IntV 8, IntV 9]"]
    by simp
qed

lemmas fill_defs =
  get_default_fill_value_def NC_FILL_BYTE_def NC_FILL_CHAR_def NC_FILL_SHORT_def
  NC_FILL_INT_def NC_FILL_FLOAT_def NC_FILL_DOUBLE_def

text \<open>
  Claim C3, as the spec states it, fails: for an int variable with a \<open>missing_value\<close>
  attribute and no \<open>_FillValue\<close>, the placeholder resolves to the default fill value of
  the type, while padding uses \<open>missing_value\<close>.
\<close>

theorem placeholder_ignores_missing_value:
  "p_const
     (init_parser\<lparr>ds_variables := [''v'' \<mapsto> \<lparr>var_name = ''v'', dtype = NcInt,
         dimensions = [''d''], ncattrs = [''missing_value'' \<mapsto> IntV 5]\<rparr>],
       curr_var := Some ''v''\<rparr>)
     (StrV ''_'')
   = Inr (IntV (- 2147483647),
       init_parser\<lparr>ds_variables := [''v'' \<mapsto> \<lparr>var_name = ''v'', dtype = NcInt,
         dimensions = [''d''], ncattrs = [''missing_value'' \<mapsto> IntV 5]\<rparr>],
       curr_var := Some ''v''\<rparr>)
   \<and> pad_array \<lparr>var_name = ''v'', dtype = NcInt, dimensions = [''d''],
         ncattrs = [''missing_value'' \<mapsto> IntV 5]\<rparr> (PyInt 1) [] = Inr [IntV 5]"
  by (simp add: p_const_def pad_array_def curr_var_handle_def init_parser_def FILL_STRING_def
      fill_defs)


text \<open>
  Claim C3, amended.  Once \<open>avar\<close> has made a declared variable the current one, the
  placeholder \<open>_\<close> resolves, for a variable that is not of type char, to the variable's
  \<open>_FillValue\<close> attribute if it has one and otherwise to the default fill value of its
  type; \<open>missing_value\<close> plays no part.  For a char variable nothing is substituted:
  a warning is logged and the placeholder text itself is the value.
\<close>

theorem placeholder_resolution:
  assumes "ds_variables st name = Some var"
  shows "\<exists>st1. p_avar st name = Inr (name, st1) \<and> curr_var_handle st1 = Some var
     \<and> p_const st1 (StrV ''_'') =
        (if dtype var = NcChar
         then Inr (StrV ''_'', logmsg WARNING ''Unable to replace fill value'' st1)
         else Inr (case ncattrs var ''_FillValue'' of
                     Some v \<Rightarrow> v
                   | None \<Rightarrow>
                       (case dtype var of
                          NcByte \<Rightarrow> ByteV (- 127)
                        | NcChar \<Rightarrow> StrV [CHR 0x00]
                        | NcShort \<Rightarrow> ShortV (- 32767)
                        | NcInt \<Rightarrow> IntV (- 2147483647)
                        | NcFloat \<Rightarrow> FloatV (99692099683868690 * 10 ^ 20)
                        | NcDouble \<Rightarrow> DoubleV (99692099683868690 * 10 ^ 20)), st1))"
proof -
  let ?st1 = "logmsg DEBUG ''Current variable set'' (st\<lparr>curr_var := Some name\<rparr>)"
  from assms have 1: "p_avar st name = Inr (name, ?st1)"
    by (simp add: p_avar_def domIff)
  from assms have 2: "curr_var_handle ?st1 = Some var"
    by (simp add: curr_var_handle_def logmsg_def)
  have 3: "p_const ?st1 (StrV ''_'') =
        (if dtype var = NcChar
         then Inr (StrV ''_'', logmsg WARNING ''Unable to replace fill value'' ?st1)
         else Inr (case ncattrs var ''_FillValue'' of
                     Some v \<Rightarrow> v
                   | None \<Rightarrow>
                       (case dtype var of
                          NcByte \<Rightarrow> ByteV (- 127)
                        | NcChar \<Rightarrow> StrV [CHR 0x00]
                        | NcShort \<Rightarrow> ShortV (- 32767)
                        | NcInt \<Rightarrow> IntV (- 2147483647)
                        | NcFloat \<Rightarrow> FloatV (99692099683868690 * 10 ^ 20)
                        | NcDouble \<Rightarrow> DoubleV (99692099683868690 * 10 ^ 20)), ?st1))"
    unfolding p_const_def FILL_STRING_def 2
    by (cases "dtype var"; cases "ncattrs var ''_FillValue''") (simp_all add: fill_defs)
  from 1 2 3 show ?thesis by blast
qed

theorem placeholder_resolution_witness:
  "\<exists>st1. p_avar (init_parser\<lparr>ds_variables := [''v'' \<mapsto> \<lparr>var_name = ''v'', dtype = NcShort,
              dimensions = [''d''], ncattrs = [''_FillValue'' \<mapsto> ShortV 9]\<rparr>]\<rparr>) ''v''
          = Inr (''v'', st1)
     \<and> p_const st1 (StrV ''_'') = Inr (ShortV 9, st1)"
proof -
  let ?var = "\<lparr>var_name = ''v'', dtype = NcShort, dimensions = [''d''],
                ncattrs = [''_FillValue'' \<mapsto> ShortV 9]\<rparr>"
  let ?st = "init_parser\<lparr>ds_variables := [''v'' \<mapsto> ?var]\<rparr>"
  have h: "ds_variables ?st ''v'' = Some ?var" by simp
  from placeholder_resolution [OF h]
  obtain st1 where a: "p_avar ?st ''v'' = Inr (''v'', st1)"
    and b: "p_const st1 (StrV ''_'') =
        (if dtype ?var = NcChar
         then Inr (StrV ''_'', logmsg WARNING ''Unable to replace fill value'' st1)
         else Inr (case ncattrs ?var ''_FillValue'' of
                     Some v \<Rightarrow> v
                   | None \<Rightarrow>
                       (case dtype ?var of
                          NcByte \<Rightarrow> ByteV (- 127)
                        | NcChar \<Rightarrow> StrV [CHR 0x00]
                        | NcShort \<Rightarrow> ShortV (- 32767)
                        | NcInt \<Rightarrow> IntV (- 2147483647)
                        | NcFloat \<Rightarrow> FloatV (99692099683868690 * 10 ^ 20)
                        | NcDouble \<Rightarrow> DoubleV (99692099683868690 * 10 ^ 20)), st1))"
    by blast
  from b have "p_const st1 (StrV ''_'') = Inr (ShortV 9, st1)" by simp
  with a show ?thesis by blast
qed


text \<open>
  The value \<open>pad_array\<close> pads with: \<open>_FillValue\<close>, else \<open>missing_value\<close>, else the
  default of the element type, which \<open>get_default_fill_value\<close> does not have for the type
  code \<open>c\<close> of a char variable.
\<close>

lemma pad_array_int_length:
  "pad_array var (PyInt n) arr =
     (case ncattrs var ''_FillValue'' of
        Some v \<Rightarrow> Inr (arr @ replicate (nat (n - int (length arr))) v)
      | None \<Rightarrow>
          (case ncattrs var ''missing_value'' of
             Some v \<Rightarrow> Inr (arr @ replicate (nat (n - int (length arr))) v)
           | None \<Rightarrow>
               (case dtype var of
                  NcByte \<Rightarrow> Inr (arr @ replicate (nat (n - int (length arr))) (ByteV (- 127)))
                | NcChar \<Rightarrow> Inl CDLContentError
                | NcShort \<Rightarrow>
                    Inr (arr @ replicate (nat (n - int (length arr))) (ShortV (- 32767)))
                | NcInt \<Rightarrow>
                    Inr (arr @ replicate (nat (n - int (length arr))) (IntV (- 2147483647)))
                | NcFloat \<Rightarrow>
                    Inr (arr @ replicate (nat (n - int (length arr)))
                           (FloatV (99692099683868690 * 10 ^ 20)))
                | NcDouble \<Rightarrow>
                    Inr (arr @ replicate (nat (n - int (length arr)))
                           (DoubleV (99692099683868690 * 10 ^ 20))))))"
  unfolding pad_array_def
  by (cases "dtype var"; cases "ncattrs var ''_FillValue''"; cases "ncattrs var ''missing_value''")
     (simp_all add: fill_defs)

lemma pad_array_float_length: "pad_array var (PyFloat x) arr \<noteq> Inr ys"
  unfolding pad_array_def
  by (cases "dtype var"; cases "ncattrs var ''_FillValue''"; cases "ncattrs var ''missing_value''")
     (simp_all add: fill_defs)

lemma default_float_fill_rounds_to_spec:
  "\<bar>(99692099683868690 * 10 ^ 20 :: real) - 9969209968 * 10 ^ 27\<bar> < 5 * 10 ^ 26"
  by simp

lemmas write_defs =
  write_var_data_def expected_length_def var_ndim_def var_size_def var_shape_def dim_len_def
  init_parser_def py_truediv_def truthy_def int_less_def put_numeric_data_def
  put_char_data_def put_shape_def record_lengths_def str_list_to_char_arr_def
  np_fixed_width_def Let_def

text \<open>
  Claim C2.  Padding works as claimed for a variable that is not of type char: the list
  is extended to the expected length with \<open>_FillValue\<close>, else \<open>missing_value\<close>, else the
  default of the type, and an int variable of length 5 with no fill attribute, given 3
  values, is written with two default fill values behind them.  A char variable is
  never padded.  Without a fill attribute \<open>pad_array\<close> asks for the default of the type
  code \<open>c\<close>, which \<open>get_default_fill_value\<close> answers with \<open>CDLContentError\<close>; with a
  \<open>missing_value\<close> attribute the fill value is found, but the expected length is the
  quotient \<open>var.size / var.shape[-1]\<close>, a float, and multiplying the list by it ends in
  \<open>TypeError\<close>.
\<close>

theorem padding_of_short_data:
  "pad_array var (PyInt n) arr =
     (case ncattrs var ''_FillValue'' of
        Some v \<Rightarrow> Inr (arr @ replicate (nat (n - int (length arr))) v)
      | None \<Rightarrow>
          (case ncattrs var ''missing_value'' of
             Some v \<Rightarrow> Inr (arr @ replicate (nat (n - int (length arr))) v)
           | None \<Rightarrow>
               (case dtype var of
                  NcByte \<Rightarrow> Inr (arr @ replicate (nat (n - int (length arr))) (ByteV (- 127)))
                | NcChar \<Rightarrow> Inl CDLContentError
                | NcShort \<Rightarrow>
                    Inr (arr @ replicate (nat (n - int (length arr))) (ShortV (- 32767)))
                | NcInt \<Rightarrow>
                    Inr (arr @ replicate (nat (n - int (length arr))) (IntV (- 2147483647)))
                | NcFloat \<Rightarrow>
                    Inr (arr @ replicate (nat (n - int (length arr)))
                           (FloatV (99692099683868690 * 10 ^ 20)))
                | NcDouble \<Rightarrow>
                    Inr (arr @ replicate (nat (n - int (length arr)))
                           (DoubleV (99692099683868690 * 10 ^ 20))))))
   \<and> write_var_data (\<lambda>c. True) (\<lambda>v. [])
        (init_parser\<lparr>ds_dimensions := [''n'' \<mapsto> 5]\<rparr>)
        \<lparr>var_name = ''v'', dtype = NcInt, dimensions = [''n''], ncattrs = Map.empty\<rparr>
        [IntV 1, IntV 2, IntV 3]
      = Inr (ArrayWrite (PyInt 5) (PyInt 0)
          (SetNumeric [IntV 1, IntV 2, IntV 3, IntV (- 2147483647), IntV (- 2147483647)]
             [PyInt 5]))
   \<and> write_var_data (\<lambda>c. True) (\<lambda>v. [])
        (init_parser\<lparr>ds_dimensions := [''n'' \<mapsto> 3, ''w'' \<mapsto> 5]\<rparr>)
        \<lparr>var_name = ''c'', dtype = NcChar, dimensions = [''n'', ''w''], ncattrs = Map.empty\<rparr>
        [StrV ''ab'']
      = Inl CDLContentError
   \<and> write_var_data (\<lambda>c. True) (\<lambda>v. [])
        (init_parser\<lparr>ds_dimensions := [''n'' \<mapsto> 3, ''w'' \<mapsto> 5]\<rparr>)
        \<lparr>var_name = ''c'', dtype = NcChar, dimensions = [''n'', ''w''],
           ncattrs = [''missing_value'' \<mapsto> StrV ''x'']\<rparr>
        [StrV ''ab'']
      = Inl TypeError"
proof -
  have 2: "write_var_data (\<lambda>c. True) (\<lambda>v. [])
        (init_parser\<lparr>ds_dimensions := [''n'' \<mapsto> 5]\<rparr>)
        \<lparr>var_name = ''v'', dtype = NcInt, dimensions = [''n''], ncattrs = Map.empty\<rparr>
        [IntV 1, IntV 2, IntV 3]
      = Inr (ArrayWrite (PyInt 5) (PyInt 0)
          (SetNumeric [IntV 1, IntV 2, IntV 3, IntV (- 2147483647), IntV (- 2147483647)]
             [PyInt 5]))"
    by (simp add: write_defs pad_array_def fill_defs eval_nat_numeral)
  have 3: "write_var_data (\<lambda>c. True) (\<lambda>v. [])
        (init_parser\<lparr>ds_dimensions := [''n'' \<mapsto> 3, ''w'' \<mapsto> 5]\<rparr>)
        \<lparr>var_name = ''c'', dtype = NcChar, dimensions = [''n'', ''w''], ncattrs = Map.empty\<rparr>
        [StrV ''ab'']
      = Inl CDLContentError"
    by (simp add: write_defs pad_array_def fill_defs)
  have 4: "write_var_data (\<lambda>c. True) (\<lambda>v. [])
        (init_parser\<lparr>ds_dimensions := [''n'' \<mapsto> 3, ''w'' \<mapsto> 5]\<rparr>)
        \<lparr>var_name = ''c'', dtype = NcChar, dimensions = [''n'', ''w''],
           ncattrs = [''missing_value'' \<mapsto> StrV ''x'']\<rparr>
        [StrV ''ab'']
      = Inl TypeError"
    by (simp add: write_defs pad_array_def fill_defs)
  from pad_array_int_length 2 3 4 show ?thesis by blast
qed

lemma foldl_times_prod_list: "foldl (*) (x :: int) xs = x * prod_list xs"
  by (induction xs arbitrary: x) (simp_all add: mult.assoc)

lemma prod_list_pos: "\<forall>x \<in> set xs. (0 :: int) < x \<Longrightarrow> 0 < prod_list xs"
  by (induction xs) simp_all

lemma filter_pos_all: "\<forall>x \<in> set xs. (0 :: int) < x \<Longrightarrow> filter (\<lambda>x. x > 0) xs = xs"
  by (induction xs) simp_all

text \<open>
  The record branch for a record dimension of length 0 that stands first and nowhere else
  in the variable's dimensions, all other dimensions having positive lengths: \<open>varlen\<close>
  is the number of supplied values, \<open>reclen\<close> the product of the other lengths.
\<close>

lemma record_lengths_first_write:
  assumes r: "rec_dimname st = Some r" and d: "dimensions var = r # rest"
    and z: "dim_len st r = 0" and p: "\<forall>x \<in> set (map (dim_len st) rest). 0 < x"
  shows "record_lengths st var varlen0 arrlen =
     (if int arrlen mod prod_list (map (dim_len st) rest) \<noteq> 0 then Inl CDLContentError
      else Inr (PyInt (int arrlen), PyInt (prod_list (map (dim_len st) rest))))"
proof -
  let ?ls = "map (dim_len st) rest"
  have pos: "0 < prod_list ?ls" using p by (rule prod_list_pos)
  then have nz: "prod_list ?ls \<noteq> 0" by simp
  have sh: "var_shape st var = 0 # ?ls" by (simp add: var_shape_def d z)
  have fl: "filter (\<lambda>x. x > 0) (var_shape st var) = ?ls"
    unfolding sh using filter_pos_all [OF p] by simp
  have md: "py_mod (PyInt (int arrlen)) (PyInt (prod_list ?ls))
      = Inr (PyInt (int arrlen mod prod_list ?ls))"
    using nz by simp
  show ?thesis
  proof (cases rest)
    case Nil
    then show ?thesis
      by (simp add: record_lengths_def r z var_ndim_def d truthy_def)
  next
    case (Cons a as)
    then have nd: "var_ndim var > 1" by (simp add: var_ndim_def d)
    from Cons have ne: "?ls = dim_len st a # map (dim_len st) as" by simp
    have pr: "foldl (*) (dim_len st a) (map (dim_len st) as) = prod_list ?ls"
      unfolding ne by (simp add: foldl_times_prod_list)
    have "record_lengths st var varlen0 arrlen =
       (case py_mod (PyInt (int arrlen)) (PyInt (prod_list ?ls)) of
          Inl e \<Rightarrow> Inl e
        | Inr m \<Rightarrow> if truthy m then Inl CDLContentError
                   else Inr (PyInt (int arrlen), PyInt (prod_list ?ls)))"
      unfolding record_lengths_def Let_def r fl
      using nd z pr by (simp add: ne)
    then show ?thesis unfolding md by (simp add: truthy_def)
  qed
qed

lemma put_shape_record:
  assumes "reclen \<noteq> 0"
  shows "put_shape (x # ls) n (PyInt reclen) =
     Inr (PyFloat (real n / real_of_int reclen) # map PyInt ls)"
  using assms by (simp add: put_shape_def py_truediv_def truthy_def)

text \<open>
  Every first write to a record variable hands on a shape whose leading entry is the
  float \<open>len(arr) / reclen\<close>.  With a library that takes integer shapes only, no such
  write goes through: it ends in \<open>CDLContentError\<close>, or for a char variable with no
  other dimension in the \<open>ZeroDivisionError\<close> of the division by its width 0.
\<close>

lemma first_record_write_refused:
  assumes r: "rec_dimname st = Some r" and d: "dimensions var = r # rest"
    and z: "dim_len st r = 0" and p: "\<forall>x \<in> set rest. 0 < dim_len st x"
    and ref: "\<forall>c. accepts c \<longrightarrow> integer_shape c"
  shows "write_var_data accepts np_text st var arr =
     (if dtype var = NcChar \<and> rest = [] then Inl ZeroDivisionError
      else Inl CDLContentError)"
proof -
  let ?ls = "map (dim_len st) rest"
  let ?reclen = "prod_list ?ls"
  let ?shp = "PyFloat (real (length arr) / real_of_int ?reclen) # map PyInt ?ls"
  from p have p': "\<forall>x \<in> set ?ls. 0 < x" by simp
  have nz: "?reclen \<noteq> 0" using prod_list_pos [OF p'] by simp
  have sh: "var_shape st var = 0 # ?ls" by (simp add: var_shape_def d z)
  have nd: "(var_ndim var = 0) = False" "(var_ndim var > 0) = True"
    by (simp_all add: var_ndim_def d)
  have rv: "(case rec_dimname st of None \<Rightarrow> False | Some r \<Rightarrow> r \<in> set (dimensions var)) = True"
    by (simp add: r d)
  have rl: "record_lengths st var v0 (length arr) =
     (if int (length arr) mod ?reclen \<noteq> 0 then Inl CDLContentError
      else Inr (PyInt (int (length arr)), PyInt ?reclen))" for v0
    by (rule record_lengths_first_write [OF r d z p'])
  have ps: "put_shape (0 # ?ls) (length arr) (PyInt ?reclen) = Inr ?shp"
    by (rule put_shape_record [OF nz])
  have kind: "(dtype_kind (dtype var) = CHR ''S'') = (dtype var = NcChar)"
    by (cases "dtype var") simp_all
  have na: "\<not> accepts (SetNumeric vals (PyFloat q # s))"
    "\<not> accepts (SetChars elems (PyFloat q # s))" for vals elems q s
  proof -
    from ref have "accepts (SetNumeric vals (PyFloat q # s))
        \<longrightarrow> integer_shape (SetNumeric vals (PyFloat q # s))" by (rule spec)
    then show "\<not> accepts (SetNumeric vals (PyFloat q # s))" by simp
    from ref have "accepts (SetChars elems (PyFloat q # s))
        \<longrightarrow> integer_shape (SetChars elems (PyFloat q # s))" by (rule spec)
    then show "\<not> accepts (SetChars elems (PyFloat q # s))" by simp
  qed
  have tail: "(case (if int (length arr) mod ?reclen \<noteq> 0 then Inl CDLContentError
                     else Inr (PyInt (int (length arr)), PyInt ?reclen)) of
      Inl e \<Rightarrow> Inl e
    | Inr (varlen, reclen) \<Rightarrow>
        (case (if int_less (int (length arr)) varlen then pad_array var varlen arr
               else Inr arr) of
           Inl e \<Rightarrow> Inl e
         | Inr arr' \<Rightarrow>
             (case (if dtype var = NcChar
                    then put_char_data accepts np_text (0 # ?ls) arr' reclen
                    else put_numeric_data accepts (0 # ?ls) arr' reclen) of
                Inl e \<Rightarrow> Inl CDLContentError
              | Inr c \<Rightarrow> Inr (ArrayWrite varlen reclen c)))) = Inl CDLContentError"
    by (simp add: int_less_def put_char_data_def put_numeric_data_def ps na Let_def)
  have unf: "write_var_data accepts np_text st var arr =
    (case expected_length st var of
       Inl e \<Rightarrow> Inl e
     | Inr varlen0 \<Rightarrow>
        (case (if int (length arr) mod ?reclen \<noteq> 0 then Inl CDLContentError
               else Inr (PyInt (int (length arr)), PyInt ?reclen)) of
      Inl e \<Rightarrow> Inl e
    | Inr (varlen, reclen) \<Rightarrow>
        (case (if int_less (int (length arr)) varlen then pad_array var varlen arr
               else Inr arr) of
           Inl e \<Rightarrow> Inl e
         | Inr arr' \<Rightarrow>
             (case (if dtype var = NcChar
                    then put_char_data accepts np_text (0 # ?ls) arr' reclen
                    else put_numeric_data accepts (0 # ?ls) arr' reclen) of
                Inl e \<Rightarrow> Inl CDLContentError
              | Inr c \<Rightarrow> Inr (ArrayWrite varlen reclen c)))))"
    unfolding write_var_data_def Let_def nd rv kind rl sh if_True if_False by (rule refl)
  show ?thesis
  proof (cases "dtype var = NcChar \<and> rest = []")
    case True
    then have "expected_length st var = Inl ZeroDivisionError"
      by (simp add: expected_length_def nd sh py_truediv_def)
    with True show ?thesis unfolding unf by simp
  next
    case False
    have "\<exists>v0. expected_length st var = Inr v0"
    proof (cases "dtype var = NcChar")
      case True
      with False have "rest \<noteq> []" by simp
      then have "last (0 # ?ls) = dim_len st (last rest)" by (simp add: last_map)
      moreover from \<open>rest \<noteq> []\<close> p have "0 < dim_len st (last rest)" by simp
      ultimately have "last (0 # ?ls) \<noteq> 0" by simp
      with True show ?thesis
        by (simp add: expected_length_def nd sh py_truediv_def)
    next
      case False
      then show ?thesis by (simp add: expected_length_def kind)
    qed
    then obtain v0 where "expected_length st var = Inr v0" ..
    with False show ?thesis unfolding unf using tail by simp
  qed
qed

text \<open>
  Claim C1.  For a record variable over an empty record dimension and one other
  dimension of length 4, given 12 values, the lengths are inferred as claimed:
  \<open>varlen\<close> is 12, the number of supplied values, and \<open>reclen\<close> is 4, the length of the
  other dimension.  The number of records put in front of the shape is the quotient
  \<open>len(arr) / reclen\<close> of a true division, the float 3.0 and not the integer 3.  numpy
  takes integers only in a shape, so the write is refused and raised as
  \<open>CDLContentError\<close>: no record is committed.  Only a library that took the float
  would see the three records.
\<close>

theorem record_example_commits_nothing:
  "record_lengths
     (init_parser\<lparr>ds_dimensions := [''t'' \<mapsto> 0, ''x'' \<mapsto> 4], rec_dimname := Some ''t''\<rparr>)
     \<lparr>var_name = ''v'', dtype = NcInt, dimensions = [''t'', ''x''], ncattrs = Map.empty\<rparr>
     (PyInt 0) 12 = Inr (PyInt 12, PyInt 4)
   \<and> put_shape [0, 4] 12 (PyInt 4) = Inr [PyFloat 3, PyInt 4]
   \<and> \<not> integer_shape
         (SetNumeric (map IntV [1, 2, 3, 4, 5, 6, 7, 8, 9, 10, 11, 12]) [PyFloat 3, PyInt 4])
   \<and> write_var_data integer_shape (\<lambda>v. [])
       (init_parser\<lparr>ds_dimensions := [''t'' \<mapsto> 0, ''x'' \<mapsto> 4], rec_dimname := Some ''t''\<rparr>)
       \<lparr>var_name = ''v'', dtype = NcInt, dimensions = [''t'', ''x''], ncattrs = Map.empty\<rparr>
       (map IntV [1, 2, 3, 4, 5, 6, 7, 8, 9, 10, 11, 12])
     = Inl CDLContentError
   \<and> write_var_data (\<lambda>c. True) (\<lambda>v. [])
       (init_parser\<lparr>ds_dimensions := [''t'' \<mapsto> 0, ''x'' \<mapsto> 4], rec_dimname := Some ''t''\<rparr>)
       \<lparr>var_name = ''v'', dtype = NcInt, dimensions = [''t'', ''x''], ncattrs = Map.empty\<rparr>
       (map IntV [1, 2, 3, 4, 5, 6, 7, 8, 9, 10, 11, 12])
     = Inr (ArrayWrite (PyInt 12) (PyInt 4)
         (SetNumeric (map IntV [1, 2, 3, 4, 5, 6, 7, 8, 9, 10, 11, 12]) [PyFloat 3, PyInt 4]))
   \<and> write_var_data integer_shape (\<lambda>v. [])
       (init_parser\<lparr>ds_dimensions := [''x'' \<mapsto> 2]\<rparr>)
       \<lparr>var_name = ''v'', dtype = NcInt, dimensions = [''x''], ncattrs = Map.empty\<rparr>
       [IntV 1, IntV 2]
     = Inr (ArrayWrite (PyInt 2) (PyInt 0) (SetNumeric [IntV 1, IntV 2] [PyInt 2]))"
proof -
  let ?st = "init_parser\<lparr>ds_dimensions := [''t'' \<mapsto> 0, ''x'' \<mapsto> 4], rec_dimname := Some ''t''\<rparr>"
  let ?var = "\<lparr>var_name = ''v'', dtype = NcInt, dimensions = [''t'', ''x''], ncattrs = Map.empty\<rparr>"
  let ?arr = "map IntV [1, 2, 3, 4, 5, 6, 7, 8, 9, 10, 11, 12]"
  have r: "rec_dimname ?st = Some ''t''" by simp
  have d: "dimensions ?var = ''t'' # [''x'']" by simp
  have z: "dim_len ?st ''t'' = 0" by (simp add: dim_len_def)
  have p: "\<forall>x \<in> set [''x'']. 0 < dim_len ?st x" by (simp add: dim_len_def)
  have p': "\<forall>x \<in> set (map (dim_len ?st) [''x'']). 0 < x" by (simp add: dim_len_def)
  have i: "\<forall>c. integer_shape c \<longrightarrow> integer_shape c" by simp
  have 1: "record_lengths ?st ?var (PyInt 0) 12 = Inr (PyInt 12, PyInt 4)"
    using record_lengths_first_write [OF r d z p', of "PyInt 0" 12]
    by (simp add: dim_len_def)
  have 2: "put_shape [0, 4] 12 (PyInt 4) = Inr [PyFloat 3, PyInt 4]"
    using put_shape_record [of 4 0 "[4]" 12] by simp
  have 3: "\<not> integer_shape (SetNumeric ?arr [PyFloat 3, PyInt 4])" by simp
  have 4: "write_var_data integer_shape (\<lambda>v. []) ?st ?var ?arr = Inl CDLContentError"
    using first_record_write_refused [OF r d z p i, of "\<lambda>v. []" ?arr] by simp
  have 5: "write_var_data (\<lambda>c. True) (\<lambda>v. []) ?st ?var ?arr
     = Inr (ArrayWrite (PyInt 12) (PyInt 4) (SetNumeric ?arr [PyFloat 3, PyInt 4]))"
    by (simp add: write_defs)
  have 6: "write_var_data integer_shape (\<lambda>v. [])
       (init_parser\<lparr>ds_dimensions := [''x'' \<mapsto> 2]\<rparr>)
       \<lparr>var_name = ''v'', dtype = NcInt, dimensions = [''x''], ncattrs = Map.empty\<rparr>
       [IntV 1, IntV 2]
     = Inr (ArrayWrite (PyInt 2) (PyInt 0) (SetNumeric [IntV 1, IntV 2] [PyInt 2]))"
    by (simp add: write_defs)
  from 1 2 3 4 5 6 show ?thesis by blast
qed

lemma record_lengths_varlen:
  "record_lengths st var v0 n = Inr (vl, rl) \<Longrightarrow> vl = v0 \<or> vl = PyInt (int n)"
  by (auto simp: record_lengths_def Let_def split: if_splits list.splits sum.splits)

lemma char_data_never_padded:
  assumes "vl = PyFloat x \<or> vl = PyInt (int (length arr))"
    and "(if int_less (int (length arr)) vl then pad_array var vl arr else Inr arr) = Inr arr'"
  shows "arr' = arr"
proof (cases vl)
  case (PyInt n)
  with assms(1) have "vl = PyInt (int (length arr))" by auto
  with assms(2) show ?thesis by (simp add: int_less_def)
next
  case (PyFloat y)
  with assms(2) pad_array_float_length [of var y arr arr'] show ?thesis
    by (simp split: if_splits)
qed

text \<open>
  Claim C8.  Whenever a data statement for a char variable goes through, the last
  dimension of the variable having a positive length, what is handed on is one text
  element per supplied value, each of the width given by that length; a string becomes
  its first \<open>width\<close> characters followed by NULs up to that width.
\<close>

theorem char_data_fixed_width:
  assumes c: "dtype var = NcChar" and d: "dimensions var \<noteq> []"
    and lp: "0 < last (var_shape st var)"
    and w: "write_var_data accepts np_text st var arr = Inr res"
  shows "(\<exists>varlen reclen shp. res = ArrayWrite varlen reclen
            (SetChars (map (np_fixed_width np_text (nat (last (var_shape st var)))) arr) shp))
     \<and> (\<forall>s. np_fixed_width np_text (nat (last (var_shape st var))) (StrV s)
            = take (nat (last (var_shape st var))) s
              @ replicate (nat (last (var_shape st var)) - length s) (CHR 0x00))"
proof -
  let ?rec = "case rec_dimname st of None \<Rightarrow> False | Some r \<Rightarrow> r \<in> set (dimensions var)"
  from d have nd: "(var_ndim var = 0) = False" "(var_ndim var > 0) = True"
    by (simp_all add: var_ndim_def)
  from d have shne: "var_shape st var \<noteq> []" by (simp add: var_shape_def)
  from c have k: "(dtype_kind (dtype var) = CHR ''S'') = True" by simp
  from lp have "expected_length st var
      = Inr (PyFloat (real_of_int (var_size st var) / real_of_int (last (var_shape st var))))"
    by (simp add: expected_length_def k nd py_truediv_def)
  then obtain x where el: "expected_length st var = Inr (PyFloat x)" by blast
  let ?lens = "if ?rec then record_lengths st var (PyFloat x) (length arr)
               else Inr (PyFloat x, PyInt 0)"
  have unf: "write_var_data accepts np_text st var arr =
    (case ?lens of
       Inl e \<Rightarrow> Inl e
     | Inr (varlen, reclen) \<Rightarrow>
         (case (if int_less (int (length arr)) varlen then pad_array var varlen arr
                else Inr arr) of
            Inl e \<Rightarrow> Inl e
          | Inr arr' \<Rightarrow>
              (case put_char_data accepts np_text (var_shape st var) arr' reclen of
                 Inl e \<Rightarrow> Inl CDLContentError
               | Inr c \<Rightarrow> Inr (ArrayWrite varlen reclen c))))"
    unfolding write_var_data_def Let_def nd k el if_True if_False sum.case by (rule refl)
  from w unf obtain varlen reclen where l: "?lens = Inr (varlen, reclen)"
    by (cases ?lens) auto
  from w unf l obtain arr' where
    pd: "(if int_less (int (length arr)) varlen then pad_array var varlen arr else Inr arr)
           = Inr arr'"
    by (cases "if int_less (int (length arr)) varlen then pad_array var varlen arr else Inr arr")
       auto
  from w unf l pd obtain call where
    pc: "put_char_data accepts np_text (var_shape st var) arr' reclen = Inr call"
    and res: "res = ArrayWrite varlen reclen call"
    by (cases "put_char_data accepts np_text (var_shape st var) arr' reclen") auto
  from l have vl: "varlen = PyFloat x \<or> varlen = PyInt (int (length arr))"
    by (auto split: if_splits dest: record_lengths_varlen)
  from vl pd have same: "arr' = arr" by (rule char_data_never_padded)
  from pc shne obtain shp where
    "call = SetChars (map (np_fixed_width np_text (nat (last (var_shape st var)))) arr') shp"
    by (auto simp: put_char_data_def Let_def str_list_to_char_arr_def
          split: sum.splits if_splits)
  with res same have 1: "\<exists>varlen reclen shp. res = ArrayWrite varlen reclen
            (SetChars (map (np_fixed_width np_text (nat (last (var_shape st var)))) arr) shp)"
    by blast
  have 2: "\<forall>s. np_fixed_width np_text (nat (last (var_shape st var))) (StrV s)
            = take (nat (last (var_shape st var))) s
              @ replicate (nat (last (var_shape st var)) - length s) (CHR 0x00)"
    by (simp add: np_fixed_width_def)
  from 1 2 show ?thesis by blast
qed

theorem char_data_fixed_width_witness:
  "write_var_data (\<lambda>c. True) (\<lambda>v. [])
     (init_parser\<lparr>ds_dimensions := [''n'' \<mapsto> 2, ''w'' \<mapsto> 5]\<rparr>)
     \<lparr>var_name = ''c'', dtype = NcChar, dimensions = [''n'', ''w''], ncattrs = Map.empty\<rparr>
     [StrV ''ab'', StrV ''cdefg'']
   = Inr (ArrayWrite (PyFloat 2) (PyInt 0)
       (SetChars [[CHR ''a'', CHR ''b'', CHR 0x00, CHR 0x00, CHR 0x00], ''cdefg'']
          [PyInt 2, PyInt 5]))
   \<and> (\<exists>varlen reclen shp. ArrayWrite (PyFloat 2) (PyInt 0)
           (SetChars [[CHR ''a'', CHR ''b'', CHR 0x00, CHR 0x00, CHR 0x00], ''cdefg'']
              [PyInt 2, PyInt 5])
         = ArrayWrite varlen reclen
            (SetChars (map (np_fixed_width (\<lambda>v. []) 5) [StrV ''ab'', StrV ''cdefg'']) shp))"
proof -
  let ?st = "init_parser\<lparr>ds_dimensions := [''n'' \<mapsto> 2, ''w'' \<mapsto> 5]\<rparr>"
  let ?var = "\<lparr>var_name = ''c'', dtype = NcChar, dimensions = [''n'', ''w''],
                ncattrs = Map.empty\<rparr>"
  let ?res = "ArrayWrite (PyFloat 2) (PyInt 0)
       (SetChars [[CHR ''a'', CHR ''b'', CHR 0x00, CHR 0x00, CHR 0x00], ''cdefg'']
          [PyInt 2, PyInt 5])"
  have c: "dtype ?var = NcChar" by simp
  have d: "dimensions ?var \<noteq> []" by simp
  have w: "write_var_data (\<lambda>c. True) (\<lambda>v. []) ?st ?var [StrV ''ab'', StrV ''cdefg'']
      = Inr ?res"
    by (simp add: write_defs eval_nat_numeral)
  have l: "nat (last (var_shape ?st ?var)) = 5"
    by (simp add: var_shape_def dim_len_def)
  have lp: "0 < last (var_shape ?st ?var)"
    by (simp add: var_shape_def dim_len_def)
  from char_data_fixed_width [OF c d lp w]
  have "\<exists>varlen reclen shp. ?res = ArrayWrite varlen reclen
          (SetChars (map (np_fixed_width (\<lambda>v. []) (nat (last (var_shape ?st ?var))))
             [StrV ''ab'', StrV ''cdefg'']) shp)"
    by blast
  then have "\<exists>varlen reclen shp. ?res = ArrayWrite varlen reclen
          (SetChars (map (np_fixed_width (\<lambda>v. []) 5) [StrV ''ab'', StrV ''cdefg'']) shp)"
    unfolding l .
  with w show ?thesis by blast
qed


end
